theory Spec2Isabelle
  imports
    Main
    "HOL-Library.Sublist"
    "HOL-Library.Char_ord"
    "HOL-Library.List_Lexorder"
    "HOL-Library.Multiset"
begin

section \<open>Go strings\<close>

text \<open>
  A Go \<^verbatim>\<open>string\<close> is a sequence of bytes; it is modelled as \<^typ>\<open>string\<close>, a list of
  8-bit characters. Comparison with \<^verbatim>\<open><\<close> is bytewise lexicographic, which is the order
  of \<^typ>\<open>char list\<close> here. The functions of package \<^verbatim>\<open>strings\<close> that the generator
  calls are written out below, each for the arguments the source passes.
\<close>

definition strings_HasPrefix :: "string \<Rightarrow> string \<Rightarrow> bool" where
  "strings_HasPrefix s pre = (take (length pre) s = pre)"

definition strings_HasSuffix :: "string \<Rightarrow> string \<Rightarrow> bool" where
  "strings_HasSuffix s suf = (length suf \<le> length s \<and> drop (length s - length suf) s = suf)"

definition strings_TrimSuffix :: "string \<Rightarrow> string \<Rightarrow> string" where
  "strings_TrimSuffix s suf =
     (if strings_HasSuffix s suf then take (length s - length suf) s else s)"

definition strings_TrimPrefix :: "string \<Rightarrow> string \<Rightarrow> string" where
  "strings_TrimPrefix s pre =
     (if strings_HasPrefix s pre then drop (length pre) s else s)"

text \<open>
  \<^verbatim>\<open>strings.Split(s, sep)\<close> for a separator of one byte (the source splits on
  \<^verbatim>\<open>"."\<close> and \<^verbatim>\<open>"_"\<close>): the result always has at least one element, and
  \<^verbatim>\<open>Split("", ".")\<close> is \<^verbatim>\<open>[""]\<close>.
\<close>

fun strings_Split :: "string \<Rightarrow> char \<Rightarrow> string list" where
  "strings_Split [] sep = [[]]"
| "strings_Split (c # cs) sep =
     (if c = sep then [] # strings_Split cs sep
      else (case strings_Split cs sep of
              [] \<Rightarrow> [[c]]
            | r # rs \<Rightarrow> (c # r) # rs))"

text \<open>\<^verbatim>\<open>strings.SplitN(s, sep, 2)\<close> for a separator of one byte: cut at the first
  separator, or the whole string alone when there is none.\<close>

definition strings_SplitN2 :: "string \<Rightarrow> char \<Rightarrow> string list" where
  "strings_SplitN2 s sep =
     (if sep \<in> set s
      then [takeWhile (\<lambda>c. c \<noteq> sep) s, tl (dropWhile (\<lambda>c. c \<noteq> sep) s)]
      else [s])"

fun strings_Join :: "string list \<Rightarrow> string \<Rightarrow> string" where
  "strings_Join [] sep = []"
| "strings_Join [x] sep = x"
| "strings_Join (x # y # ys) sep = x @ sep @ strings_Join (y # ys) sep"

text \<open>\<^verbatim>\<open>strings.Replace(s, old, new, -1)\<close> for \<^verbatim>\<open>old\<close> of one byte.\<close>

definition strings_ReplaceAll1 :: "string \<Rightarrow> char \<Rightarrow> string \<Rightarrow> string" where
  "strings_ReplaceAll1 s old new = concat (map (\<lambda>c. if c = old then new else [c]) s)"

text \<open>\<^verbatim>\<open>strings.Replace(s, old, new, 1)\<close>: the leftmost occurrence of \<^verbatim>\<open>old\<close> is
  replaced, and \<^verbatim>\<open>s\<close> is returned as it is when there is none.\<close>

fun strings_Replace1 :: "string \<Rightarrow> string \<Rightarrow> string \<Rightarrow> string" where
  "strings_Replace1 [] old new = (if old = [] then new else [])"
| "strings_Replace1 (c # cs) old new =
     (if strings_HasPrefix (c # cs) old then new @ drop (length old) (c # cs)
      else c # strings_Replace1 cs old new)"

text \<open>
  \<^verbatim>\<open>strings.ToUpper\<close> and \<^verbatim>\<open>strings.ToLower\<close> on a string of exactly one byte, which
  is how the source calls them (\<^verbatim>\<open>s[:1]\<close>). An ASCII letter changes case, any other
  ASCII byte is kept, and a byte from 0x80 on is not valid UTF-8 by itself: the library
  maps it to the replacement character U+FFFD, three bytes in UTF-8.
\<close>

definition RuneError_utf8 :: string where
  "RuneError_utf8 = [char_of (239::nat), char_of (191::nat), char_of (189::nat)]"

definition ToUpper_byte :: "char \<Rightarrow> string" where
  "ToUpper_byte c =
     (let n = (of_char c :: nat) in
      if 97 \<le> n \<and> n \<le> 122 then [char_of (n - 32)]
      else if 128 \<le> n then RuneError_utf8
      else [c])"

definition ToLower_byte :: "char \<Rightarrow> string" where
  "ToLower_byte c =
     (let n = (of_char c :: nat) in
      if 65 \<le> n \<and> n \<le> 90 then [char_of (n + 32)]
      else if 128 \<le> n then RuneError_utf8
      else [c])"

section \<open>Naming policy\<close>

definition generateInterfaceName :: "string \<Rightarrow> string" where
  "generateInterfaceName serviceName = serviceName"

definition generateImplName :: "string \<Rightarrow> string" where
  "generateImplName serviceName = serviceName @ ''Impl''"

text \<open>The last step of \<^verbatim>\<open>generatePrivateFieldName\<close>: the first byte in lower case.\<close>

definition lowerFirst :: "string \<Rightarrow> string" where
  "lowerFirst name = (case name of [] \<Rightarrow> [] | c # cs \<Rightarrow> ToLower_byte c @ cs)"

definition generatePrivateFieldName :: "string \<Rightarrow> string" where
  "generatePrivateFieldName serviceName =
     (if serviceName = [] then []
      else
        let name = strings_TrimSuffix serviceName ''Service'';
            name = strings_TrimSuffix name ''Client''
        in lowerFirst name)"

text \<open>
  The private field name as the specification words it: at most one suffix is removed,
  \<^verbatim>\<open>"Service"\<close> if the base ends with it, otherwise \<^verbatim>\<open>"Client"\<close>.
\<close>

definition privateFieldName_spec :: "string \<Rightarrow> string" where
  "privateFieldName_spec base =
     (if strings_HasSuffix base ''Service'' then lowerFirst (strings_TrimSuffix base ''Service'')
      else if strings_HasSuffix base ''Client'' then lowerFirst (strings_TrimSuffix base ''Client'')
      else lowerFirst base)"

text \<open>
  \<^verbatim>\<open>strings.TrimSpace\<close> removes, from both ends, every rune that
  \<^verbatim>\<open>unicode.IsSpace\<close> accepts. On the bytes of the string that is: the six ASCII
  white-space bytes, and the UTF-8 encodings of U+0085, U+00A0, U+1680, U+2000 to U+200A,
  U+2028, U+2029, U+202F, U+205F and U+3000.
\<close>

definition asciiSpace :: "char \<Rightarrow> bool" where
  "asciiSpace c = (c \<in> set [CHR 0x09, CHR 0x0A, CHR 0x0B, CHR 0x0C, CHR 0x0D, CHR 0x20])"

definition space2 :: "char \<Rightarrow> char \<Rightarrow> bool" where
  "space2 a b = (a = CHR 0xC2 \<and> (b = CHR 0x85 \<or> b = CHR 0xA0))"

definition space3 :: "char \<Rightarrow> char \<Rightarrow> char \<Rightarrow> bool" where
  "space3 a b c =
     ((a = CHR 0xE1 \<and> b = CHR 0x9A \<and> c = CHR 0x80) \<or>
      (a = CHR 0xE2 \<and> b = CHR 0x80 \<and>
         ((128::nat) \<le> of_char c \<and> (of_char c :: nat) \<le> 138
          \<or> c = CHR 0xA8 \<or> c = CHR 0xA9 \<or> c = CHR 0xAF)) \<or>
      (a = CHR 0xE2 \<and> b = CHR 0x81 \<and> c = CHR 0x9F) \<or>
      (a = CHR 0xE3 \<and> b = CHR 0x80 \<and> c = CHR 0x80))"

fun trimLeftSpace :: "string \<Rightarrow> string" where
  "trimLeftSpace (a # b # c # s) =
     (if asciiSpace a then trimLeftSpace (b # c # s)
      else if space2 a b then trimLeftSpace (c # s)
      else if space3 a b c then trimLeftSpace s
      else a # b # c # s)"
| "trimLeftSpace [a, b] =
     (if asciiSpace a then trimLeftSpace [b]
      else if space2 a b then []
      else [a, b])"
| "trimLeftSpace [a] = (if asciiSpace a then [] else [a])"
| "trimLeftSpace [] = []"

text \<open>The same from the right end, on the reversed string: the last rune of \<^verbatim>\<open>s\<close> is
  the encoding that \<^verbatim>\<open>s\<close> ends with, read backwards here.\<close>

fun trimLeftSpace_rev :: "string \<Rightarrow> string" where
  "trimLeftSpace_rev (c # b # a # s) =
     (if asciiSpace c then trimLeftSpace_rev (b # a # s)
      else if space2 b c then trimLeftSpace_rev (a # s)
      else if space3 a b c then trimLeftSpace_rev s
      else c # b # a # s)"
| "trimLeftSpace_rev [c, b] =
     (if asciiSpace c then trimLeftSpace_rev [b]
      else if space2 b c then []
      else [c, b])"
| "trimLeftSpace_rev [c] = (if asciiSpace c then [] else [c])"
| "trimLeftSpace_rev [] = []"

definition strings_TrimSpace :: "string \<Rightarrow> string" where
  "strings_TrimSpace s = rev (trimLeftSpace_rev (rev (trimLeftSpace s)))"

section \<open>Sorting and maps of the Go runtime\<close>

text \<open>
  \<^verbatim>\<open>sort.Slice(xs, lt)\<close> puts \<^verbatim>\<open>xs\<close> in an order where no element is \<^verbatim>\<open>lt\<close>
  than one before it. The library does not say in which order it leaves elements that
  compare equal; the model inserts one element after the other and keeps such elements
  in the order they had.
\<close>

fun sort_insert :: "('a \<Rightarrow> 'a \<Rightarrow> bool) \<Rightarrow> 'a \<Rightarrow> 'a list \<Rightarrow> 'a list" where
  "sort_insert lt x [] = [x]"
| "sort_insert lt x (y # ys) =
     (if lt y x then y # sort_insert lt x ys else x # y # ys)"

definition sort_Slice :: "('a \<Rightarrow> 'a \<Rightarrow> bool) \<Rightarrow> 'a list \<Rightarrow> 'a list" where
  "sort_Slice lt xs = foldr (sort_insert lt) xs []"

definition sort_Strings :: "string list \<Rightarrow> string list" where
  "sort_Strings xs = sort_Slice (\<lambda>a b. a < b) xs"

text \<open>
  A Go \<^verbatim>\<open>map[string][]Service\<close> is an association list with one entry for each key.
  Reading a key that is not there gives the nil slice; \<^verbatim>\<open>m[k] = v\<close> replaces the entry
  of \<^verbatim>\<open>k\<close> or adds one.
\<close>

type_synonym 'v gomap = "(string \<times> 'v list) list"

definition gomap_get :: "'v gomap \<Rightarrow> string \<Rightarrow> 'v list" where
  "gomap_get m k = (case map_of m k of None \<Rightarrow> [] | Some v \<Rightarrow> v)"

fun gomap_set :: "'v gomap \<Rightarrow> string \<Rightarrow> 'v list \<Rightarrow> 'v gomap" where
  "gomap_set [] k v = [(k, v)]"
| "gomap_set ((k', v') # m) k v =
     (if k' = k then (k, v) # m else (k', v') # gomap_set m k v)"

definition gomap_keys :: "'v gomap \<Rightarrow> string list" where
  "gomap_keys m = map fst m"

section \<open>Data model\<close>

datatype error = Error string | Panic

record HTTPInfo =
  HTTPInfo_Method :: string
  HTTPInfo_Path :: string
  HTTPInfo_PathParams :: "string list"

record Method =
  Method_Name :: string
  Method_InputType :: string
  Method_OutputType :: string
  Method_HTTP :: "HTTPInfo option"

record Service =
  Service_Name :: string
  Service_Package :: string
  Service_GoPackage :: string
  Service_Methods :: "Method list"

record ClientConfig =
  RootPackage :: string
  OutputSubdir :: string
  ClientName :: string
  GoModulePath :: string
  HTTPClientPkg :: string

text \<open>
  What the generator reads of the schema, through protoc-gen-star: of a method its name,
  the names of its input and output messages and its options; of a service its name and
  methods; of a file its name, its proto package, the base of its input path and its
  services.

  The options of a method are absent (\<^verbatim>\<open>GetOptions() == nil\<close>), present without the
  \<^verbatim>\<open>google.api.http\<close> extension, or present with an \<^verbatim>\<open>HttpRule\<close>. The pattern of an
  \<^verbatim>\<open>HttpRule\<close> is a one-of: one of the five verbs with its path, a custom pattern
  (kind and path), or not set.
\<close>

datatype HttpRule_Pattern =
    HttpRule_Get string
  | HttpRule_Post string
  | HttpRule_Put string
  | HttpRule_Delete string
  | HttpRule_Patch string
  | HttpRule_Custom string string
  | HttpRule_unset

datatype MethodOptions =
    Options_nil
  | Options_without_http
  | Options_http HttpRule_Pattern

record pgs_Method =
  method_Name :: string
  method_Input :: string
  method_Output :: string
  method_Options :: MethodOptions

record pgs_Service =
  svc_Name :: string
  svc_Methods :: "pgs_Method list"

record pgs_File =
  file_Name :: string
  file_Package :: string
  file_InputPath_Base :: string
  file_Services :: "pgs_Service list"

section \<open>Binding extractor\<close>

text \<open>
  \<^verbatim>\<open>extractPathParams\<close>: all matches, leftmost first and not overlapping, of the regular
  expression \<^verbatim>\<open>\{([^}]+)\}\<close>. A match starts at an opening brace that is followed by at
  least one byte other than the closing brace and then by a closing brace; it ends at
  the first closing brace after its start, and the search goes on behind it.
\<close>

definition notClose :: "char \<Rightarrow> bool" where
  "notClose c = (c \<noteq> CHR ''}'')"

definition matchAt :: "char \<Rightarrow> string \<Rightarrow> bool" where
  "matchAt c cs =
     (c = CHR ''{'' \<and> takeWhile notClose cs \<noteq> [] \<and> dropWhile notClose cs \<noteq> [])"

function extractPathParams :: "string \<Rightarrow> string list" where
  "extractPathParams [] = []"
| "extractPathParams (c # cs) =
     (if matchAt c cs
      then takeWhile notClose cs # extractPathParams (tl (dropWhile notClose cs))
      else extractPathParams cs)"
  by pat_completeness auto
termination
proof (relation "measure length")
  show "wf (measure length)"
    by simp
next
  fix c :: char and cs :: string
  have "length (dropWhile notClose cs) \<le> length cs"
    by (rule length_dropWhile_le)
  then have "length (tl (dropWhile notClose cs)) \<le> length cs"
    by simp
  then show "(tl (dropWhile notClose cs), c # cs) \<in> measure length"
    by simp
next
  fix c :: char and cs :: string
  show "(cs, c # cs) \<in> measure length"
    by simp
qed

definition extractHTTPInfo :: "pgs_Method \<Rightarrow> error + HTTPInfo" where
  "extractHTTPInfo method =
     (case method_Options method of
        Options_nil \<Rightarrow> Inl (Error ''no options'')
      | Options_without_http \<Rightarrow> Inl (Error ''no http annotation'')
      | Options_http pattern \<Rightarrow>
          (let mk = (\<lambda>verb path.
                 Inr \<lparr>HTTPInfo_Method = verb, HTTPInfo_Path = path,
                      HTTPInfo_PathParams = extractPathParams path\<rparr>)
           in case pattern of
                HttpRule_Get path \<Rightarrow> mk ''GET'' path
              | HttpRule_Post path \<Rightarrow> mk ''POST'' path
              | HttpRule_Put path \<Rightarrow> mk ''PUT'' path
              | HttpRule_Delete path \<Rightarrow> mk ''DELETE'' path
              | HttpRule_Patch path \<Rightarrow> mk ''PATCH'' path
              | _ \<Rightarrow> Inl (Error ''unsupported HTTP method pattern'')))"

definition snakeToPascal :: "string \<Rightarrow> string" where
  "snakeToPascal s =
     strings_Join
       (map (\<lambda>part. case part of [] \<Rightarrow> [] | c # cs \<Rightarrow> ToUpper_byte c @ cs)
            (strings_Split s CHR ''_''))
       []"

section \<open>Schema collector\<close>

definition extractMethod :: "pgs_Method \<Rightarrow> Method" where
  "extractMethod method =
     (let m = \<lparr>Method_Name = method_Name method,
               Method_InputType = method_Input method,
               Method_OutputType = method_Output method,
               Method_HTTP = None\<rparr>
      in case extractHTTPInfo method of
           Inr httpInfo \<Rightarrow> m\<lparr>Method_HTTP := Some httpInfo\<rparr>
         | Inl err \<Rightarrow> m)"

fun extractMethods :: "pgs_Method list \<Rightarrow> Method list \<Rightarrow> Method list" where
  "extractMethods [] methods = methods"
| "extractMethods (method # rest) methods =
     extractMethods rest (methods @ [extractMethod method])"

definition extractService :: "string \<Rightarrow> pgs_File \<Rightarrow> pgs_Service \<Rightarrow> Service" where
  "extractService pkg file svc =
     \<lparr>Service_Name = svc_Name svc,
      Service_Package = pkg,
      Service_GoPackage = file_InputPath_Base file,
      Service_Methods =
        sort_Slice (\<lambda>a b. Method_Name a < Method_Name b)
          (extractMethods (svc_Methods svc) [])\<rparr>"

fun extractFileServices ::
  "string \<Rightarrow> pgs_File \<Rightarrow> pgs_Service list \<Rightarrow> Service list \<Rightarrow> Service list" where
  "extractFileServices pkg file [] services = services"
| "extractFileServices pkg file (svc # rest) services =
     extractFileServices pkg file rest (services @ [extractService pkg file svc])"

fun extractServices_files :: "pgs_File list \<Rightarrow> string \<Rightarrow> Service list \<Rightarrow> Service list" where
  "extractServices_files [] rootPackage services = services"
| "extractServices_files (file # rest) rootPackage services =
     (let pkg = file_Package file in
      if \<not> strings_HasPrefix pkg rootPackage
      then extractServices_files rest rootPackage services
      else extractServices_files rest rootPackage
             (extractFileServices pkg file (file_Services file) services))"

definition Service_less :: "Service \<Rightarrow> Service \<Rightarrow> bool" where
  "Service_less a b =
     (if Service_Package a = Service_Package b then Service_Name a < Service_Name b
      else Service_Package a < Service_Package b)"

definition extractServices :: "pgs_File list \<Rightarrow> string \<Rightarrow> Service list" where
  "extractServices files rootPackage =
     sort_Slice Service_less (extractServices_files files rootPackage [])"

text \<open>
  The collector's filter as the specification words it: the package is the root
  namespace, or a descendant of it segment by segment.
\<close>

definition namespace_under_spec :: "string \<Rightarrow> string \<Rightarrow> bool" where
  "namespace_under_spec pkg rootNamespace =
     (pkg = rootNamespace \<or>
      strict_prefix (strings_Split rootNamespace CHR ''.'') (strings_Split pkg CHR ''.''))"

section \<open>Namespace grouper\<close>

fun groupServices_loop ::
  "Service list \<Rightarrow> string \<Rightarrow> Service list \<Rightarrow> Service gomap \<Rightarrow> Service list \<times> Service gomap"
where
  "groupServices_loop [] rootPkg topLevel nested = (topLevel, nested)"
| "groupServices_loop (svc # rest) rootPkg topLevel nested =
     (if Service_Package svc = rootPkg
      then groupServices_loop rest rootPkg (topLevel @ [svc]) nested
      else
        let parts = strings_Split (Service_Package svc) CHR ''.'' in
        if length parts > length (strings_Split rootPkg CHR ''.'')
        then
          let categoryIndex = length (strings_Split rootPkg CHR ''.'');
              category = parts ! categoryIndex
          in groupServices_loop rest rootPkg topLevel
               (gomap_set nested category (gomap_get nested category @ [svc]))
        else groupServices_loop rest rootPkg topLevel nested)"

definition groupServices :: "Service list \<Rightarrow> string \<Rightarrow> Service list \<times> Service gomap" where
  "groupServices services rootPkg = groupServices_loop services rootPkg [] []"

section \<open>Invocation configuration\<close>

text \<open>\<^verbatim>\<open>params.Str(k)\<close> is the value of parameter \<^verbatim>\<open>k\<close>, or the empty string.\<close>

definition Parameters_Str :: "(string \<rightharpoonup> string) \<Rightarrow> string \<Rightarrow> string" where
  "Parameters_Str params k = (case params k of None \<Rightarrow> [] | Some v \<Rightarrow> v)"

text \<open>
  \<^verbatim>\<open>parseClientConfig\<close>. The expression \<^verbatim>\<open>lastPart[:1]\<close> panics when the last segment
  of the root package is empty; that is the result \<^term>\<open>Inl Panic\<close>.
\<close>

definition parseClientConfig :: "(string \<rightharpoonup> string) \<Rightarrow> error + ClientConfig" where
  "parseClientConfig params =
     (let clientParam = Parameters_Str params ''client'' in
      if clientParam = []
      then Inl (Error ''no client configuration specified (use: client=package:subdir)'')
      else
        let parts = strings_SplitN2 clientParam CHR '':'' in
        if length parts \<noteq> 2
        then Inl (Error (''invalid client format: '' @ clientParam
                          @ '' (expected: package:subdir)''))
        else
          let rootPackage = strings_TrimSpace (parts ! 0);
              outputSubdir = strings_TrimSpace (parts ! 1);
              packageParts = strings_Split rootPackage CHR ''.'';
              lastPart = packageParts ! (length packageParts - 1)
          in case lastPart of
               [] \<Rightarrow> Inl Panic
             | c # cs \<Rightarrow>
                 let clientName = ToUpper_byte c @ cs @ ''Client'';
                     goModulePath = Parameters_Str params ''go_module_path'';
                     goModulePath =
                       (if goModulePath = [] then ''github.com/getfrontierhq/schema/pkg/go''
                        else goModulePath);
                     httpClientPkg = goModulePath @ ''/'' @ outputSubdir @ ''/http''
                 in Inr \<lparr>RootPackage = rootPackage,
                         OutputSubdir = outputSubdir,
                         ClientName = clientName,
                         GoModulePath = goModulePath,
                         HTTPClientPkg = httpClientPkg\<rparr>)"

section \<open>Path compiler\<close>

text \<open>
  \<^verbatim>\<open>buildPathConstruction\<close>: the first loop replaces, for each parameter in turn, the
  leftmost \<^verbatim>\<open>{param}\<close> of the template built so far by \<^verbatim>\<open>%s\<close>; the second loop
  collects the arguments; the result is the text of a \<^verbatim>\<open>fmt.Sprintf\<close> call.
\<close>

fun replaceParams :: "string \<Rightarrow> string list \<Rightarrow> string" where
  "replaceParams template [] = template"
| "replaceParams template (param # rest) =
     replaceParams (strings_Replace1 template (''{'' @ param @ ''}'') ''%s'') rest"

fun buildArgs :: "string list \<Rightarrow> string list \<Rightarrow> string list" where
  "buildArgs [] args = args"
| "buildArgs (param # rest) args =
     (let fieldName = snakeToPascal param
      in buildArgs rest (args @ [''req.'' @ fieldName]))"

definition buildPathConstruction :: "string \<Rightarrow> string list \<Rightarrow> string" where
  \<open>buildPathConstruction path params =
     ''fmt.Sprintf("'' @ replaceParams path params @ ''", ''
       @ strings_Join (buildArgs params []) '', '' @ '')''\<close>







section \<open>Emission\<close>

record MethodTemplateData =
  MethodTemplateData_Name :: string
  MethodTemplateData_InputType :: string
  MethodTemplateData_OutputType :: string
  MethodTemplateData_HTTP :: "HTTPInfo option"
  MethodTemplateData_PathConstruction :: string

record ServiceTemplateData =
  ServiceTemplateData_ServiceName :: string
  ServiceTemplateData_ImportSuffix :: string
  ServiceTemplateData_HasFmt :: bool
  ServiceTemplateData_Methods :: "MethodTemplateData list"
  ServiceTemplateData_HTTPClientPkg :: string
  ServiceTemplateData_ProtoPackage :: string
  ServiceTemplateData_InterfaceName :: string
  ServiceTemplateData_ImplName :: string
  ServiceTemplateData_PrivateField :: string

record NestedServicesTemplateData =
  NestedServicesTemplateData_Category :: string
  NestedServicesTemplateData_CategoryLower :: string
  NestedServicesTemplateData_ImportSuffix :: string
  NestedServicesTemplateData_HasFmt :: bool
  NestedServicesTemplateData_Services :: "ServiceTemplateData list"
  NestedServicesTemplateData_HTTPClientPkg :: string
  NestedServicesTemplateData_ProtoPackage :: string
  NestedServicesTemplateData_InterfaceName :: string
  NestedServicesTemplateData_ImplName :: string
  NestedServicesTemplateData_PrivateField :: string

record ServiceInfo =
  ServiceInfo_FieldName :: string
  ServiceInfo_TypeName :: string
  ServiceInfo_ImplName :: string
  ServiceInfo_InterfaceName :: string
  ServiceInfo_PrivateField :: string

record NestedClientInfo =
  NestedClientInfo_FieldName :: string
  NestedClientInfo_TypeName :: string
  NestedClientInfo_ImplName :: string
  NestedClientInfo_InterfaceName :: string
  NestedClientInfo_PrivateField :: string
  NestedClientInfo_Services :: "ServiceInfo list"

record RootClientTemplateData =
  RootClientTemplateData_ClientName :: string
  RootClientTemplateData_HTTPClientPkg :: string
  RootClientTemplateData_InterfaceName :: string
  RootClientTemplateData_ImplName :: string
  RootClientTemplateData_TopLevelServices :: "ServiceInfo list"
  RootClientTemplateData_NestedClients :: "NestedClientInfo list"

definition computeImportSuffix :: "string \<Rightarrow> string \<Rightarrow> string" where
  "computeImportSuffix pkg rootPkg =
     (if pkg = rootPkg then []
      else if \<not> strings_HasPrefix pkg (rootPkg @ ''.'') then []
      else
        let suffix = strings_TrimPrefix pkg (rootPkg @ ''.'')
        in ''/'' @ strings_ReplaceAll1 suffix CHR ''.'' ''/'')"

text \<open>
  The loop over the methods of a service, the same in \<^verbatim>\<open>generateService\<close> and in
  \<^verbatim>\<open>generateNestedServices\<close>: a method without HTTP information is skipped; the others
  are appended, and a method with path parameters sets \<^verbatim>\<open>HasFmt\<close>.
\<close>

fun processMethods ::
  "Method list \<Rightarrow> bool \<Rightarrow> MethodTemplateData list \<Rightarrow> bool \<times> MethodTemplateData list" where
  "processMethods [] hasFmt methods = (hasFmt, methods)"
| "processMethods (m # rest) hasFmt methods =
     (case Method_HTTP m of
        None \<Rightarrow> processMethods rest hasFmt methods
      | Some http \<Rightarrow>
          let methodData =
                \<lparr>MethodTemplateData_Name = Method_Name m,
                 MethodTemplateData_InputType = Method_InputType m,
                 MethodTemplateData_OutputType = Method_OutputType m,
                 MethodTemplateData_HTTP = Some http,
                 MethodTemplateData_PathConstruction = []\<rparr>
          in if length (HTTPInfo_PathParams http) > 0
             then processMethods rest True
                    (methods @
                     [methodData\<lparr>MethodTemplateData_PathConstruction :=
                        buildPathConstruction (HTTPInfo_Path http) (HTTPInfo_PathParams http)\<rparr>])
             else processMethods rest hasFmt (methods @ [methodData]))"

definition generateService_data :: "Service \<Rightarrow> ClientConfig \<Rightarrow> ServiceTemplateData" where
  "generateService_data svc cfg =
     (let importSuffix = computeImportSuffix (Service_Package svc) (RootPackage cfg);
          protoPackage =
            GoModulePath cfg @ ''/'' @ strings_ReplaceAll1 (RootPackage cfg) CHR ''.'' ''/''
              @ importSuffix;
          (hasFmt, methods) = processMethods (Service_Methods svc) False []
      in \<lparr>ServiceTemplateData_ServiceName = Service_Name svc,
          ServiceTemplateData_ImportSuffix = importSuffix,
          ServiceTemplateData_HasFmt = hasFmt,
          ServiceTemplateData_Methods = methods,
          ServiceTemplateData_HTTPClientPkg = HTTPClientPkg cfg,
          ServiceTemplateData_ProtoPackage = protoPackage,
          ServiceTemplateData_InterfaceName = generateInterfaceName (Service_Name svc),
          ServiceTemplateData_ImplName = generateImplName (Service_Name svc),
          ServiceTemplateData_PrivateField = generatePrivateFieldName (Service_Name svc)\<rparr>)"

subsection \<open>Template execution\<close>

text \<open>
  The three templates are constants of the source; executing one on its data writes the
  literal text and the values of the fields in the order of the template. The only
  action that can fail is a field of \<^verbatim>\<open>.HTTP\<close> read through a nil pointer; the
  generator returns that failure wrapped as \<^verbatim>\<open>execute template: ...\<close> (the library's
  message also names the position in the template, which is left out here).
\<close>

definition NL :: string where
  "NL = [CHR 0x0A]"

definition TAB :: string where
  "TAB = [CHR 0x09]"

definition nilHTTP :: error where
  "nilHTTP = Error ''execute template: nil pointer evaluating *main.HTTPInfo''"

fun render_seq :: "(error + string) list \<Rightarrow> error + string" where
  "render_seq [] = Inr []"
| "render_seq (Inl e # ps) = Inl e"
| "render_seq (Inr s # ps) =
     (case render_seq ps of Inl e \<Rightarrow> Inl e | Inr r \<Rightarrow> Inr (s @ r))"

definition render_range :: "('a \<Rightarrow> error + string) \<Rightarrow> 'a list \<Rightarrow> error + string" where
  "render_range body xs = render_seq (map body xs)"

definition render_import_header :: "bool \<Rightarrow> string \<Rightarrow> string \<Rightarrow> string" where
  \<open>render_import_header hasFmt httpClientPkg protoPackage =
     ''package client'' @ NL @ NL
     @ ''import ('' @ NL
     @ TAB @ ''"context"'' @ NL
     @ TAB @ (if hasFmt then ''"fmt"'' @ NL @ TAB else []) @ NL
     @ TAB @ ''"'' @ httpClientPkg @ ''"'' @ NL
     @ TAB @ ''pb "'' @ protoPackage @ ''"'' @ NL
     @ '')'' @ NL @ NL\<close>

definition render_interface_method :: "MethodTemplateData \<Rightarrow> error + string" where
  "render_interface_method m =
     (case MethodTemplateData_HTTP m of
        None \<Rightarrow> Inl nilHTTP
      | Some http \<Rightarrow>
          Inr (TAB @ ''// '' @ MethodTemplateData_Name m @ '' makes a '' @ HTTPInfo_Method http
               @ '' request to '' @ HTTPInfo_Path http @ NL
               @ TAB @ MethodTemplateData_Name m @ ''(ctx context.Context, req *pb.''
               @ MethodTemplateData_InputType m @ '') (*pb.''
               @ MethodTemplateData_OutputType m @ '', error)'' @ NL))"

definition render_impl_method :: "string \<Rightarrow> MethodTemplateData \<Rightarrow> error + string" where
  \<open>render_impl_method implName m =
     (case MethodTemplateData_HTTP m of
        None \<Rightarrow> Inl nilHTTP
      | Some http \<Rightarrow>
          Inr (NL
               @ ''// '' @ MethodTemplateData_Name m @ '' makes a '' @ HTTPInfo_Method http
               @ '' request to '' @ HTTPInfo_Path http @ NL
               @ ''func (s *'' @ implName @ '') '' @ MethodTemplateData_Name m
               @ ''(ctx context.Context, req *pb.'' @ MethodTemplateData_InputType m
               @ '') (*pb.'' @ MethodTemplateData_OutputType m @ '', error) {'' @ NL
               @ TAB @ ''resp := &pb.'' @ MethodTemplateData_OutputType m @ ''{}'' @ NL
               @ TAB
               @ (if MethodTemplateData_PathConstruction m \<noteq> []
                  then ''path := '' @ MethodTemplateData_PathConstruction m @ NL @ TAB
                  else ''path := "'' @ HTTPInfo_Path http @ ''"'' @ NL @ TAB)
               @ (if HTTPInfo_Method http = ''POST''
                  then ''err := s.client.Post(ctx, path, req, resp)'' @ NL @ TAB
                  else ''err := s.client.Get(ctx, path, resp)'' @ NL @ TAB)
               @ ''return resp, err'' @ NL
               @ ''}'' @ NL))\<close>

text \<open>The interface, the struct and the methods of one service: the part that
  \<^verbatim>\<open>serviceFileTemplate\<close> and \<^verbatim>\<open>nestedServicesFileTemplate\<close> have in common.\<close>

definition render_service_decls :: "ServiceTemplateData \<Rightarrow> error + string" where
  "render_service_decls d =
     render_seq
       [Inr (''// '' @ ServiceTemplateData_InterfaceName d @ '' defines the interface for ''
             @ ServiceTemplateData_ServiceName d @ NL
             @ ''type '' @ ServiceTemplateData_InterfaceName d @ '' interface {'' @ NL),
        render_range render_interface_method (ServiceTemplateData_Methods d),
        Inr (''}'' @ NL @ NL
             @ ''// '' @ ServiceTemplateData_ImplName d @ '' provides ''
             @ ServiceTemplateData_ServiceName d @ '' operations'' @ NL
             @ ''type '' @ ServiceTemplateData_ImplName d @ '' struct {'' @ NL
             @ TAB @ ServiceTemplateData_InterfaceName d @ NL
             @ TAB @ ''client *http.HTTPClient'' @ NL
             @ ''}'' @ NL @ NL),
        render_range (render_impl_method (ServiceTemplateData_ImplName d))
          (ServiceTemplateData_Methods d)]"

definition execute_serviceFileTemplate :: "ServiceTemplateData \<Rightarrow> error + string" where
  "execute_serviceFileTemplate d =
     render_seq
       [Inr (render_import_header (ServiceTemplateData_HasFmt d)
               (ServiceTemplateData_HTTPClientPkg d) (ServiceTemplateData_ProtoPackage d)),
        render_service_decls d]"

definition generateService :: "Service \<Rightarrow> ClientConfig \<Rightarrow> error + string" where
  "generateService svc cfg = execute_serviceFileTemplate (generateService_data svc cfg)"

subsection \<open>Nested categories\<close>

fun processServices ::
  "Service list \<Rightarrow> bool \<Rightarrow> ServiceTemplateData list \<Rightarrow> bool \<times> ServiceTemplateData list" where
  "processServices [] hasFmt services = (hasFmt, services)"
| "processServices (svc # rest) hasFmt services =
     (let (hasFmt, methods) = processMethods (Service_Methods svc) hasFmt [];
          serviceData =
            \<lparr>ServiceTemplateData_ServiceName = Service_Name svc,
             ServiceTemplateData_ImportSuffix = [],
             ServiceTemplateData_HasFmt = False,
             ServiceTemplateData_Methods = methods,
             ServiceTemplateData_HTTPClientPkg = [],
             ServiceTemplateData_ProtoPackage = [],
             ServiceTemplateData_InterfaceName = generateInterfaceName (Service_Name svc),
             ServiceTemplateData_ImplName = generateImplName (Service_Name svc),
             ServiceTemplateData_PrivateField = generatePrivateFieldName (Service_Name svc)\<rparr>
      in processServices rest hasFmt (services @ [serviceData]))"

definition execute_nestedServicesFileTemplate ::
  "NestedServicesTemplateData \<Rightarrow> error + string" where
  "execute_nestedServicesFileTemplate d =
     render_seq
       [Inr (render_import_header (NestedServicesTemplateData_HasFmt d)
               (NestedServicesTemplateData_HTTPClientPkg d)
               (NestedServicesTemplateData_ProtoPackage d)
             @ ''// '' @ NestedServicesTemplateData_InterfaceName d
             @ '' defines the interface for '' @ NestedServicesTemplateData_Category d
             @ '' services'' @ NL
             @ ''type '' @ NestedServicesTemplateData_InterfaceName d @ '' interface {'' @ NL),
        Inr (concat (map (\<lambda>s. TAB @ ''Get'' @ ServiceTemplateData_ServiceName s @ ''() ''
                               @ ServiceTemplateData_InterfaceName s @ NL)
                         (NestedServicesTemplateData_Services d))),
        Inr (''}'' @ NL @ NL
             @ ''// '' @ NestedServicesTemplateData_ImplName d @ '' groups ''
             @ NestedServicesTemplateData_CategoryLower d @ '' services'' @ NL
             @ ''type '' @ NestedServicesTemplateData_ImplName d @ '' struct {'' @ NL
             @ TAB @ NestedServicesTemplateData_InterfaceName d @ NL),
        Inr (concat (map (\<lambda>s. TAB @ ServiceTemplateData_PrivateField s @ '' *''
                               @ ServiceTemplateData_ImplName s @ NL)
                         (NestedServicesTemplateData_Services d))),
        Inr (''}'' @ NL @ NL),
        Inr (concat (map (\<lambda>s. NL
                               @ ''// Get'' @ ServiceTemplateData_ServiceName s
                               @ '' returns the '' @ ServiceTemplateData_ServiceName s @ NL
                               @ ''func (c *'' @ NestedServicesTemplateData_ImplName d
                               @ '') Get'' @ ServiceTemplateData_ServiceName s @ ''() ''
                               @ ServiceTemplateData_InterfaceName s @ '' {'' @ NL
                               @ TAB @ ''return c.'' @ ServiceTemplateData_PrivateField s @ NL
                               @ ''}'' @ NL)
                         (NestedServicesTemplateData_Services d))),
        Inr (NL @ NL),
        render_range (\<lambda>s. render_seq [Inr NL, render_service_decls s, Inr NL])
          (NestedServicesTemplateData_Services d)]"

text \<open>\<^verbatim>\<open>generateNestedServices\<close>. The expression \<^verbatim>\<open>category[:1]\<close> panics on the empty
  category.\<close>

definition generateNestedServices ::
  "string \<Rightarrow> Service list \<Rightarrow> ClientConfig \<Rightarrow> error + string" where
  "generateNestedServices category services cfg =
     (case category of
        [] \<Rightarrow> Inl Panic
      | c # cs \<Rightarrow>
          let categoryCapitalized = ToUpper_byte c @ cs;
              importSuffix = ''/'' @ category;
              protoPackage =
                GoModulePath cfg @ ''/'' @ strings_ReplaceAll1 (RootPackage cfg) CHR ''.'' ''/''
                  @ importSuffix;
              (hasFmt, serviceDatas) = processServices services False []
          in execute_nestedServicesFileTemplate
               \<lparr>NestedServicesTemplateData_Category = categoryCapitalized,
                NestedServicesTemplateData_CategoryLower = category,
                NestedServicesTemplateData_ImportSuffix = importSuffix,
                NestedServicesTemplateData_HasFmt = hasFmt,
                NestedServicesTemplateData_Services = serviceDatas,
                NestedServicesTemplateData_HTTPClientPkg = HTTPClientPkg cfg,
                NestedServicesTemplateData_ProtoPackage = protoPackage,
                NestedServicesTemplateData_InterfaceName =
                  generateInterfaceName (categoryCapitalized @ ''Client''),
                NestedServicesTemplateData_ImplName =
                  generateImplName (categoryCapitalized @ ''Client''),
                NestedServicesTemplateData_PrivateField =
                  generatePrivateFieldName (categoryCapitalized @ ''Client'')\<rparr>)"

subsection \<open>Root client\<close>

text \<open>
  The order in which a \<^verbatim>\<open>range\<close> statement visits the keys of a map is not fixed by the
  language and may differ from one statement to the next and from one run to the next.
  Each of the two \<^verbatim>\<open>range\<close> statements over the categories takes its order from a
  function that returns the keys of the map rearranged.
\<close>

record MapOrder =
  range_Execute :: "string list \<Rightarrow> string list"
  range_generateRootClient :: "string list \<Rightarrow> string list"

definition is_map_order :: "MapOrder \<Rightarrow> bool" where
  "is_map_order mo =
     (\<forall>ks. mset (range_Execute mo ks) = mset ks \<and>
           mset (range_generateRootClient mo ks) = mset ks)"

definition serviceInfo_topLevel :: "Service \<Rightarrow> ServiceInfo" where
  "serviceInfo_topLevel svc =
     (let fieldName = strings_TrimSuffix (Service_Name svc) ''Service''
      in \<lparr>ServiceInfo_FieldName = fieldName,
          ServiceInfo_TypeName = Service_Name svc,
          ServiceInfo_ImplName = generateImplName (Service_Name svc),
          ServiceInfo_InterfaceName = generateInterfaceName (Service_Name svc),
          ServiceInfo_PrivateField = generatePrivateFieldName (Service_Name svc)\<rparr>)"

definition serviceInfo_nested :: "Service \<Rightarrow> ServiceInfo" where
  "serviceInfo_nested svc =
     \<lparr>ServiceInfo_FieldName = Service_Name svc,
      ServiceInfo_TypeName = Service_Name svc,
      ServiceInfo_ImplName = generateImplName (Service_Name svc),
      ServiceInfo_InterfaceName = generateInterfaceName (Service_Name svc),
      ServiceInfo_PrivateField = generatePrivateFieldName (Service_Name svc)\<rparr>"

fun rootClient_topLevel :: "Service list \<Rightarrow> ServiceInfo list \<Rightarrow> ServiceInfo list" where
  "rootClient_topLevel [] infos = infos"
| "rootClient_topLevel (svc # rest) infos =
     rootClient_topLevel rest (infos @ [serviceInfo_topLevel svc])"

fun rootClient_services :: "Service list \<Rightarrow> ServiceInfo list \<Rightarrow> ServiceInfo list" where
  "rootClient_services [] infos = infos"
| "rootClient_services (svc # rest) infos =
     rootClient_services rest (infos @ [serviceInfo_nested svc])"

fun rootClient_nested ::
  "string list \<Rightarrow> Service gomap \<Rightarrow> NestedClientInfo list \<Rightarrow> error + NestedClientInfo list" where
  "rootClient_nested [] nested clients = Inr clients"
| "rootClient_nested (category # rest) nested clients =
     (let services =
            sort_Slice (\<lambda>a b. Service_Name a < Service_Name b) (gomap_get nested category)
      in case category of
           [] \<Rightarrow> Inl Panic
         | c # cs \<Rightarrow>
             let categoryCapitalized = ToUpper_byte c @ cs;
                 nestedClient =
                   \<lparr>NestedClientInfo_FieldName = categoryCapitalized,
                    NestedClientInfo_TypeName = categoryCapitalized @ ''Client'',
                    NestedClientInfo_ImplName =
                      generateImplName (categoryCapitalized @ ''Client''),
                    NestedClientInfo_InterfaceName =
                      generateInterfaceName (categoryCapitalized @ ''Client''),
                    NestedClientInfo_PrivateField =
                      generatePrivateFieldName (categoryCapitalized @ ''Client''),
                    NestedClientInfo_Services = rootClient_services services []\<rparr>
             in rootClient_nested rest (gomap_set nested category services)
                  (clients @ [nestedClient]))"

definition execute_rootClientTemplate :: "RootClientTemplateData \<Rightarrow> string" where
  \<open>execute_rootClientTemplate d =
     (let tops = RootClientTemplateData_TopLevelServices d;
          nesteds = RootClientTemplateData_NestedClients d;
          implName = RootClientTemplateData_ImplName d
      in
       ''package client'' @ NL @ NL
       @ ''import ('' @ NL
       @ TAB @ ''"net/http"'' @ NL
       @ TAB @ ''"time"'' @ NL @ NL
       @ TAB @ ''httpclient "'' @ RootClientTemplateData_HTTPClientPkg d @ ''"'' @ NL
       @ '')'' @ NL @ NL
       @ ''// '' @ RootClientTemplateData_InterfaceName d
       @ '' defines the interface for the root HTTP client'' @ NL
       @ ''type '' @ RootClientTemplateData_InterfaceName d @ '' interface {'' @ NL
       @ concat (map (\<lambda>s. TAB @ ''Get'' @ ServiceInfo_FieldName s @ ''() ''
                          @ ServiceInfo_InterfaceName s @ NL) tops)
       @ concat (map (\<lambda>n. TAB @ ''Get'' @ NestedClientInfo_FieldName n @ ''() ''
                          @ NestedClientInfo_InterfaceName n @ NL) nesteds)
       @ ''}'' @ NL @ NL
       @ ''// '' @ implName @ '' is the root HTTP client implementation'' @ NL
       @ ''type '' @ implName @ '' struct {'' @ NL
       @ TAB @ RootClientTemplateData_InterfaceName d @ NL
       @ TAB @ ''httpClient *httpclient.HTTPClient'' @ NL
       @ concat (map (\<lambda>s. TAB @ ServiceInfo_PrivateField s @ '' *''
                          @ ServiceInfo_ImplName s @ NL) tops)
       @ concat (map (\<lambda>n. TAB @ NestedClientInfo_PrivateField n @ '' *''
                          @ NestedClientInfo_ImplName n @ NL) nesteds)
       @ ''}'' @ NL @ NL
       @ concat (map (\<lambda>s. NL
                          @ ''// Get'' @ ServiceInfo_FieldName s @ '' returns the ''
                          @ ServiceInfo_TypeName s @ NL
                          @ ''func (c *'' @ implName @ '') Get'' @ ServiceInfo_FieldName s
                          @ ''() '' @ ServiceInfo_InterfaceName s @ '' {'' @ NL
                          @ TAB @ ''return c.'' @ ServiceInfo_PrivateField s @ NL
                          @ ''}'' @ NL) tops)
       @ NL
       @ concat (map (\<lambda>n. NL
                          @ ''// Get'' @ NestedClientInfo_FieldName n @ '' returns the ''
                          @ NestedClientInfo_TypeName n @ NL
                          @ ''func (c *'' @ implName @ '') Get'' @ NestedClientInfo_FieldName n
                          @ ''() '' @ NestedClientInfo_InterfaceName n @ '' {'' @ NL
                          @ TAB @ ''return c.'' @ NestedClientInfo_PrivateField n @ NL
                          @ ''}'' @ NL) nesteds)
       @ NL @ NL
       @ ''// New'' @ RootClientTemplateData_ClientName d @ '' creates a new HTTP client'' @ NL
       @ ''//'' @ NL
       @ ''// Parameters:'' @ NL
       @ ''//   - baseURL: API base URL (e.g., "https://data.sandbox.iniciador.com.br")'' @ NL
       @ ''//   - token: Bearer token (empty string for unauthenticated client)'' @ NL
       @ ''//'' @ NL
       @ ''// The client is immutable - to change the token, create a new client instance.''
       @ NL
       @ ''func New'' @ RootClientTemplateData_ClientName d @ ''(baseURL, token string) *''
       @ implName @ '' {'' @ NL
       @ TAB @ ''httpClient := &httpclient.HTTPClient{'' @ NL
       @ TAB @ TAB @ ''BaseURL:    baseURL,'' @ NL
       @ TAB @ TAB @ ''HTTPClient: &http.Client{Timeout: 30 * time.Second},'' @ NL
       @ TAB @ TAB @ ''Token:      token,'' @ NL
       @ TAB @ ''}'' @ NL @ NL
       @ TAB @ ''return &'' @ implName @ ''{'' @ NL
       @ TAB @ TAB @ ''httpClient: httpClient,'' @ NL
       @ concat (map (\<lambda>s. TAB @ TAB @ ServiceInfo_PrivateField s @ '': &''
                          @ ServiceInfo_ImplName s @ ''{client: httpClient},'' @ NL) tops)
       @ concat (map (\<lambda>n. TAB @ TAB @ NestedClientInfo_PrivateField n @ '': &''
                          @ NestedClientInfo_ImplName n @ ''{'' @ NL
                          @ concat (map (\<lambda>s. TAB @ TAB @ TAB @ ServiceInfo_PrivateField s
                                             @ '': &'' @ ServiceInfo_ImplName s
                                             @ ''{client: httpClient},'' @ NL)
                                        (NestedClientInfo_Services n))
                          @ TAB @ TAB @ ''},'' @ NL) nesteds)
       @ TAB @ ''}'' @ NL
       @ ''}'' @ NL)\<close>

definition generateRootClient ::
  "MapOrder \<Rightarrow> string \<Rightarrow> Service list \<Rightarrow> Service gomap \<Rightarrow> ClientConfig \<Rightarrow> error + string"
where
  "generateRootClient mo clientName topLevel nested cfg =
     (let tops = rootClient_topLevel topLevel [];
          categories = sort_Strings (range_generateRootClient mo (gomap_keys nested))
      in case rootClient_nested categories nested [] of
           Inl e \<Rightarrow> Inl e
         | Inr clients \<Rightarrow>
             Inr (execute_rootClientTemplate
                    \<lparr>RootClientTemplateData_ClientName = clientName,
                     RootClientTemplateData_HTTPClientPkg = HTTPClientPkg cfg,
                     RootClientTemplateData_InterfaceName = generateInterfaceName clientName,
                     RootClientTemplateData_ImplName = generateImplName clientName,
                     RootClientTemplateData_TopLevelServices = tops,
                     RootClientTemplateData_NestedClients = clients\<rparr>))"

section \<open>The pipeline\<close>

text \<open>
  Three things of \<^verbatim>\<open>Execute\<close> come from outside the generator's own code and are
  parameters here: \<^verbatim>\<open>filepath.Join\<close>, \<^verbatim>\<open>strings.ToLower\<close> on a whole string, and
  the text of the static runtime file \<^verbatim>\<open>httpClientBaseCode\<close>. What is proved about
  \<^verbatim>\<open>Execute\<close> holds for every choice of them.
\<close>

record Lib =
  filepath_Join :: "string list \<Rightarrow> string"
  strings_ToLower :: "string \<Rightarrow> string"
  httpClientBaseCode :: string

type_synonym artifact = "string \<times> string"

fun Execute_topLevel ::
  "Lib \<Rightarrow> ClientConfig \<Rightarrow> Service list \<Rightarrow> artifact list \<Rightarrow> error + artifact list" where
  "Execute_topLevel lib cfg [] artifacts = Inr artifacts"
| "Execute_topLevel lib cfg (svc # rest) artifacts =
     (case generateService svc cfg of
        Inl Panic \<Rightarrow> Inl Panic
      | Inl (Error err) \<Rightarrow> Execute_topLevel lib cfg rest artifacts
      | Inr code \<Rightarrow>
          let serviceName =
                strings_ToLower lib (strings_TrimSuffix (Service_Name svc) ''Service'');
              filename = filepath_Join lib [OutputSubdir cfg, serviceName @ ''.gen.go'']
          in Execute_topLevel lib cfg rest (artifacts @ [(filename, code)]))"

text \<open>The loop over the sorted categories. \<^verbatim>\<open>categoryServices\<close> shares its array with
  the entry of the map, so sorting it sorts the entry too, and \<^verbatim>\<open>generateRootClient\<close>
  later reads the sorted entry.\<close>

fun Execute_nested ::
  "Lib \<Rightarrow> ClientConfig \<Rightarrow> string list \<Rightarrow> Service gomap \<Rightarrow> artifact list
     \<Rightarrow> error + (Service gomap \<times> artifact list)" where
  "Execute_nested lib cfg [] nested artifacts = Inr (nested, artifacts)"
| "Execute_nested lib cfg (category # rest) nested artifacts =
     (let categoryServices =
            sort_Slice (\<lambda>a b. Service_Name a < Service_Name b) (gomap_get nested category);
          nested = gomap_set nested category categoryServices
      in case generateNestedServices category categoryServices cfg of
           Inl Panic \<Rightarrow> Inl Panic
         | Inl (Error err) \<Rightarrow> Execute_nested lib cfg rest nested artifacts
         | Inr code \<Rightarrow>
             let filename =
                   filepath_Join lib
                     [OutputSubdir cfg, strings_ToLower lib category @ ''.gen.go'']
             in Execute_nested lib cfg rest nested (artifacts @ [(filename, code)]))"

text \<open>
  \<^verbatim>\<open>Execute\<close>. The argument \<^verbatim>\<open>targets\<close> is the map of the input files, as the list of
  its values in the order the \<^verbatim>\<open>range\<close> statement visits them. \<^verbatim>\<open>m.Fail\<close> ends the
  run with the message; the result is then \<^term>\<open>Inl (Error msg)\<close> and no artifact.
\<close>

definition Execute ::
  "Lib \<Rightarrow> MapOrder \<Rightarrow> (string \<rightharpoonup> string) \<Rightarrow> pgs_File list \<Rightarrow> error + artifact list" where
  "Execute lib mo params targets =
     (case parseClientConfig params of
        Inl err \<Rightarrow> Inl err
      | Inr cfg \<Rightarrow>
          let files = sort_Slice (\<lambda>a b. file_Name a < file_Name b) targets;
              services = extractServices files (RootPackage cfg);
              httpClientPath = filepath_Join lib [OutputSubdir cfg, ''http'', ''client.gen.go''];
              artifacts = [(httpClientPath, httpClientBaseCode lib)];
              (topLevel, nested) = groupServices services (RootPackage cfg);
              topLevel = sort_Slice (\<lambda>a b. Service_Name a < Service_Name b) topLevel
          in case Execute_topLevel lib cfg topLevel artifacts of
               Inl e \<Rightarrow> Inl e
             | Inr artifacts \<Rightarrow>
                 let categories = sort_Strings (range_Execute mo (gomap_keys nested))
                 in case Execute_nested lib cfg categories nested artifacts of
                      Inl e \<Rightarrow> Inl e
                    | Inr (nested, artifacts) \<Rightarrow>
                        (case generateRootClient mo (ClientName cfg) topLevel nested cfg of
                           Inl Panic \<Rightarrow> Inl Panic
                         | Inl (Error err) \<Rightarrow> Inr artifacts
                         | Inr clientCode \<Rightarrow>
                             let clientFilename =
                                   filepath_Join lib [OutputSubdir cfg, ''client.gen.go'']
                             in Inr (artifacts @ [(clientFilename, clientCode)])))"

section \<open>Inputs for the examples\<close>

definition mkService :: "string \<Rightarrow> string \<Rightarrow> Service" where
  "mkService name pkg =
     \<lparr>Service_Name = name, Service_Package = pkg, Service_GoPackage = [],
      Service_Methods = []\<rparr>"

definition mkMethod :: "string \<Rightarrow> MethodOptions \<Rightarrow> pgs_Method" where
  "mkMethod name opts =
     \<lparr>method_Name = name, method_Input = name @ ''Request'',
      method_Output = name @ ''Response'', method_Options = opts\<rparr>"

definition mkFile :: "string \<Rightarrow> string \<Rightarrow> pgs_Service list \<Rightarrow> pgs_File" where
  "mkFile name pkg svcs =
     \<lparr>file_Name = name, file_Package = pkg, file_InputPath_Base = name,
      file_Services = svcs\<rparr>"

text \<open>Stand-ins for the library functions and two orders of map iteration, for the
  examples only.\<close>

definition example_Lib :: Lib where
  "example_Lib =
     \<lparr>filepath_Join = (\<lambda>elems. strings_Join (filter (\<lambda>e. e \<noteq> []) elems) ''/''),
      strings_ToLower = (\<lambda>s. concat (map ToLower_byte s)),
      httpClientBaseCode = ''package http''\<rparr>"

definition example_MapOrder :: MapOrder where
  "example_MapOrder = \<lparr>range_Execute = (\<lambda>ks. ks), range_generateRootClient = rev\<rparr>"

definition example_MapOrder' :: MapOrder where
  "example_MapOrder' = \<lparr>range_Execute = rev, range_generateRootClient = (\<lambda>ks. ks)\<rparr>"

definition example_fileA :: pgs_File where
  "example_fileA =
     mkFile ''a.proto'' ''root''
       [\<lparr>svc_Name = ''AccountsService'',
         svc_Methods =
           [mkMethod ''GetAccount'' (Options_http (HttpRule_Get ''/v1/accounts/{id}''))]\<rparr>]"

definition example_fileB :: pgs_File where
  "example_fileB =
     mkFile ''b.proto'' ''root.investments''
       [\<lparr>svc_Name = ''TreasureTitlesService'',
         svc_Methods =
           [mkMethod ''Create'' (Options_http (HttpRule_Post ''/v1/investments''))]\<rparr>]"

definition example_fileC :: pgs_File where
  "example_fileC =
     mkFile ''c.proto'' ''root.banking''
       [\<lparr>svc_Name = ''LoansService'',
         svc_Methods =
           [mkMethod ''GetLoan'' (Options_http (HttpRule_Get ''/v1/loans/{loan_id}''))]\<rparr>]"

definition example_cfg :: ClientConfig where
  "example_cfg =
     \<lparr>RootPackage = ''root'',
      OutputSubdir = ''out'',
      ClientName = ''RootClient'',
      GoModulePath = ''github.com/getfrontierhq/schema/pkg/go'',
      HTTPClientPkg = ''github.com/getfrontierhq/schema/pkg/go/out/http''\<rparr>"

text \<open>A service \<^verbatim>\<open>ItemsService\<close> with one method \<^verbatim>\<open>Update\<close>, bound to the given
  pattern; the template data of that method for a verb; and the text of the generated
  method for a verb and a call of the transport helper.\<close>

definition example_itemsService :: "HttpRule_Pattern \<Rightarrow> Service" where
  "example_itemsService pattern =
     extractService ''root'' (mkFile ''items.proto'' ''root'' [])
       \<lparr>svc_Name = ''ItemsService'',
        svc_Methods = [mkMethod ''Update'' (Options_http pattern)]\<rparr>"

definition example_methodData :: "string \<Rightarrow> MethodTemplateData" where
  "example_methodData verb =
     \<lparr>MethodTemplateData_Name = ''Update'',
      MethodTemplateData_InputType = ''UpdateRequest'',
      MethodTemplateData_OutputType = ''UpdateResponse'',
      MethodTemplateData_HTTP =
        Some \<lparr>HTTPInfo_Method = verb, HTTPInfo_Path = ''/v1/items'',
              HTTPInfo_PathParams = []\<rparr>,
      MethodTemplateData_PathConstruction = []\<rparr>"

definition example_impl_text :: "string \<Rightarrow> string \<Rightarrow> string" where
  \<open>example_impl_text verb call =
     NL @ ''// Update makes a '' @ verb @ '' request to /v1/items'' @ NL
     @ ''func (s *ItemsServiceImpl) Update(ctx context.Context, req *pb.UpdateRequest) ''
     @ ''(*pb.UpdateResponse, error) {'' @ NL
     @ TAB @ ''resp := &pb.UpdateResponse{}'' @ NL
     @ TAB @ ''path := "/v1/items"'' @ NL
     @ TAB @ call @ NL
     @ TAB @ ''return resp, err'' @ NL
     @ ''}'' @ NL\<close>

subsection \<open>Facts about the string functions\<close>

lemma HasSuffix_append [simp]: "strings_HasSuffix (r @ suf) suf"
  by (simp add: strings_HasSuffix_def)

lemma TrimSuffix_append [simp]: "strings_TrimSuffix (r @ suf) suf = r"
  by (simp add: strings_TrimSuffix_def)

lemma HasSuffix_iff_suffix: "strings_HasSuffix s suf \<longleftrightarrow> suffix suf s"
proof
  assume "strings_HasSuffix s suf"
  then have "s = take (length s - length suf) s @ suf"
    by (metis append_take_drop_id strings_HasSuffix_def)
  then show "suffix suf s"
    by (metis suffixI)
next
  assume "suffix suf s"
  then obtain r where "s = r @ suf"
    by (auto simp: suffix_def)
  then show "strings_HasSuffix s suf"
    by simp
qed

lemma TrimSuffix_no_suffix: "\<not> suffix suf s \<Longrightarrow> strings_TrimSuffix s suf = s"
  by (simp add: strings_TrimSuffix_def HasSuffix_iff_suffix)

lemma HasPrefix_iff_prefix: "strings_HasPrefix s pre \<longleftrightarrow> prefix pre s"
  by (metis append_eq_conv_conj prefix_def strings_HasPrefix_def)

section \<open>Naming policy: results\<close>

lemma generatePrivateFieldName_agrees_with_spec:
  assumes ncs: "\<not> suffix ''ClientService'' base"
  shows "generatePrivateFieldName base = privateFieldName_spec base"
proof (cases "suffix ''Service'' base")
  case True
  then obtain q where q: "base = q @ ''Service''"
    by (auto simp: suffix_def)
  with ncs have "\<not> suffix ''Client'' q"
    by (auto simp: suffix_def)
  with q show ?thesis
    by (simp add: generatePrivateFieldName_def privateFieldName_spec_def TrimSuffix_no_suffix)
next
  case False
  then show ?thesis
    by (simp add: generatePrivateFieldName_def privateFieldName_spec_def
        TrimSuffix_no_suffix HasSuffix_iff_suffix lowerFirst_def)
qed

text \<open>
  Claim C5 is right and the code is not: \<^verbatim>\<open>generatePrivateFieldName\<close> applies both
  \<^verbatim>\<open>TrimSuffix\<close> calls one after the other, so the base \<^verbatim>\<open>"FooClientService"\<close>
  loses \<^verbatim>\<open>"Service"\<close> and then \<^verbatim>\<open>"Client"\<close> and gets the field name \<^verbatim>\<open>"foo"\<close>,
  where the claim (and the function's own comment, which removes one suffix or the
  other) gives \<^verbatim>\<open>"fooClient"\<close>. The sibling derivation of the root client removes
  \<^verbatim>\<open>"Service"\<close> only: the same service gets the accessor name \<^verbatim>\<open>"FooClient"\<close>, and
  its private field \<^verbatim>\<open>"foo"\<close> is also the private field of \<^verbatim>\<open>"FooService"\<close>.
\<close>

theorem generatePrivateFieldName_ClientService_failing_input:
  "generatePrivateFieldName ''FooClientService'' = ''foo'' \<and>
   privateFieldName_spec ''FooClientService'' = ''fooClient'' \<and>
   generatePrivateFieldName ''FooClientService'' \<noteq> privateFieldName_spec ''FooClientService'' \<and>
   ServiceInfo_FieldName (serviceInfo_topLevel (mkService ''FooClientService'' ''root''))
     = ''FooClient'' \<and>
   ServiceInfo_PrivateField (serviceInfo_topLevel (mkService ''FooClientService'' ''root''))
     = ''foo'' \<and>
   ServiceInfo_PrivateField (serviceInfo_topLevel (mkService ''FooService'' ''root''))
     = ''foo''"
  by code_simp

text \<open>
  Claim C9: the bases \<^verbatim>\<open>"Service"\<close>, \<^verbatim>\<open>"Client"\<close> and \<^verbatim>\<open>"ClientService"\<close> are not
  empty, and each of them gets the empty private field name.
\<close>

theorem generatePrivateFieldName_empty_for_suffix_only:
  "generatePrivateFieldName ''Service'' = [] \<and>
   generatePrivateFieldName ''Client'' = [] \<and>
   generatePrivateFieldName ''ClientService'' = [] \<and>
   ''Service'' \<noteq> [] \<and> ''Client'' \<noteq> [] \<and> ''ClientService'' \<noteq> []"
  by code_simp

section \<open>Namespace grouper: results\<close>

lemma gomap_get_Nil [simp]: "gomap_get [] k = []"
  by (simp add: gomap_get_def)

lemma gomap_get_set:
  "gomap_get (gomap_set m k v) k' = (if k' = k then v else gomap_get m k')"
  by (induction m) (auto simp: gomap_get_def)

lemma groupServices_loop_fst:
  "fst (groupServices_loop svcs rootPkg topLevel nested) =
     topLevel @ filter (\<lambda>s. Service_Package s = rootPkg) svcs"
  by (induction svcs arbitrary: topLevel nested) (simp_all add: Let_def)

lemma groupServices_loop_snd:
  "gomap_get (snd (groupServices_loop svcs rootPkg topLevel nested)) c =
     gomap_get nested c @
     filter (\<lambda>s. Service_Package s \<noteq> rootPkg \<and>
                 length (strings_Split rootPkg CHR ''.'')
                   < length (strings_Split (Service_Package s) CHR ''.'') \<and>
                 strings_Split (Service_Package s) CHR ''.''
                   ! length (strings_Split rootPkg CHR ''.'') = c) svcs"
  by (induction svcs arbitrary: topLevel nested)
     (simp_all add: Let_def gomap_get_set)

text \<open>
  Claim C7: the top-level bucket holds exactly the services whose package is the root
  package, in the order of the input; the bucket of a category holds exactly the other
  services whose package has more segments than the root and has that category at index
  \<^verbatim>\<open>len(Split(rootPkg, "."))\<close>; a service with a different package and no such segment
  is in no bucket. \<^verbatim>\<open>groupServices\<close> has no failing branch: the index is read only
  under the guard on the number of segments.
\<close>

theorem groupServices_buckets:
  "fst (groupServices services rootPkg) =
     filter (\<lambda>s. Service_Package s = rootPkg) services \<and>
   gomap_get (snd (groupServices services rootPkg)) category =
     filter (\<lambda>s. Service_Package s \<noteq> rootPkg \<and>
                 length (strings_Split rootPkg CHR ''.'')
                   < length (strings_Split (Service_Package s) CHR ''.'') \<and>
                 strings_Split (Service_Package s) CHR ''.''
                   ! length (strings_Split rootPkg CHR ''.'') = category) services \<and>
   (Service_Package svc \<noteq> rootPkg \<and>
    length (strings_Split (Service_Package svc) CHR ''.'')
      \<le> length (strings_Split rootPkg CHR ''.'') \<longrightarrow>
    svc \<notin> set (fst (groupServices services rootPkg)) \<and>
    (\<forall>c. svc \<notin> set (gomap_get (snd (groupServices services rootPkg)) c)))"
  by (auto simp add: groupServices_def groupServices_loop_fst groupServices_loop_snd)

theorem groupServices_buckets_witness:
  "fst (groupServices
          [mkService ''A'' ''root'', mkService ''B'' ''root.inv'', mkService ''C'' ''roo'']
          ''root'')
     = [mkService ''A'' ''root''] \<and>
   gomap_get (snd (groupServices
          [mkService ''A'' ''root'', mkService ''B'' ''root.inv'', mkService ''C'' ''roo'']
          ''root'')) ''inv''
     = [mkService ''B'' ''root.inv''] \<and>
   Service_Package (mkService ''C'' ''roo'') \<noteq> ''root'' \<and>
   length (strings_Split (Service_Package (mkService ''C'' ''roo'')) CHR ''.'')
      \<le> length (strings_Split ''root'' CHR ''.'') \<and>
   mkService ''C'' ''roo'' \<notin> set (fst (groupServices
          [mkService ''A'' ''root'', mkService ''B'' ''root.inv'', mkService ''C'' ''roo'']
          ''root'')) \<and>
   (\<forall>c. mkService ''C'' ''roo'' \<notin> set (gomap_get (snd (groupServices
          [mkService ''A'' ''root'', mkService ''B'' ''root.inv'', mkService ''C'' ''roo'']
          ''root'')) c))"
  using groupServices_buckets
    [of "[mkService ''A'' ''root'', mkService ''B'' ''root.inv'', mkService ''C'' ''roo'']"
        "''root''" "''inv''" "mkService ''C'' ''roo''"]
  by (simp add: mkService_def)

section \<open>Schema collector: results\<close>

lemma mset_sort_insert: "mset (sort_insert lt x xs) = add_mset x (mset xs)"
  by (induction xs) simp_all

lemma mset_sort_Slice: "mset (sort_Slice lt xs) = mset xs"
  by (induction xs) (simp_all add: sort_Slice_def mset_sort_insert)

lemma extractMethods_eq: "extractMethods ms acc = acc @ map extractMethod ms"
  by (induction ms arbitrary: acc) simp_all

lemma extractFileServices_eq:
  "extractFileServices pkg file svcs acc = acc @ map (extractService pkg file) svcs"
  by (induction svcs arbitrary: acc) simp_all

lemma extractServices_files_eq:
  "extractServices_files files rootPackage acc =
     acc @ concat (map (\<lambda>f. map (extractService (file_Package f) f) (file_Services f))
                       (filter (\<lambda>f. strings_HasPrefix (file_Package f) rootPackage) files))"
  by (induction files arbitrary: acc) (simp_all add: Let_def extractFileServices_eq)

lemma processMethods_eq:
  "snd (processMethods ms hasFmt acc) =
     acc @ map (\<lambda>m. \<lparr>MethodTemplateData_Name = Method_Name m,
                 MethodTemplateData_InputType = Method_InputType m,
                 MethodTemplateData_OutputType = Method_OutputType m,
                 MethodTemplateData_HTTP = Method_HTTP m,
                 MethodTemplateData_PathConstruction =
                   (case Method_HTTP m of
                      None \<Rightarrow> []
                    | Some http \<Rightarrow>
                        if length (HTTPInfo_PathParams http) > 0
                        then buildPathConstruction (HTTPInfo_Path http)
                               (HTTPInfo_PathParams http)
                        else [])\<rparr>)
         (filter (\<lambda>m. Method_HTTP m \<noteq> None) ms)"
  by (induction ms arbitrary: hasFmt acc) (auto simp: Let_def split: option.splits)

lemma generateService_data_snd:
  "ServiceTemplateData_Methods (generateService_data svc cfg) =
     snd (processMethods (Service_Methods svc) False [])"
  by (simp add: generateService_data_def Let_def split: prod.splits)

text \<open>
  Claim C2 is right and the code is not: the collector tests
  \<^verbatim>\<open>strings.HasPrefix(pkg, rootPackage)\<close> on the bytes, so a file of package
  \<^verbatim>\<open>foo.barx\<close>, which is not under the root \<^verbatim>\<open>foo.bar\<close>, has its services collected;
  a service of package \<^verbatim>\<open>foo.barx.baz\<close> is collected too and then grouped as category
  \<^verbatim>\<open>baz\<close> of the root \<^verbatim>\<open>foo.bar\<close>.
\<close>

theorem extractServices_includes_foo_barx:
  "\<not> namespace_under_spec ''foo.barx'' ''foo.bar'' \<and>
   extractServices
     [mkFile ''x.proto'' ''foo.barx'' [\<lparr>svc_Name = ''S'', svc_Methods = []\<rparr>]] ''foo.bar''
     = [\<lparr>Service_Name = ''S'', Service_Package = ''foo.barx'',
         Service_GoPackage = ''x.proto'', Service_Methods = []\<rparr>] \<and>
   \<not> namespace_under_spec ''foo.barx.baz'' ''foo.bar'' \<and>
   gomap_get
     (snd (groupServices
        (extractServices
           [mkFile ''y.proto'' ''foo.barx.baz'' [\<lparr>svc_Name = ''T'', svc_Methods = []\<rparr>]]
           ''foo.bar'')
        ''foo.bar'')) ''baz''
     = [\<lparr>Service_Name = ''T'', Service_Package = ''foo.barx.baz'',
         Service_GoPackage = ''y.proto'', Service_Methods = []\<rparr>]"
  by code_simp

text \<open>
  Claim C3, as the specification states it, fails: the collector drops the error of
  \<^verbatim>\<open>extractHTTPInfo\<close>, so what it returns for a method whose annotation sets no
  recognized verb is what it returns for the same method without an annotation. Nothing
  is reported and the two cases cannot be told apart in the collected services.
\<close>

theorem extractServices_unsupported_pattern_counterexample:
  "extractServices
     [mkFile ''a.proto'' ''root''
        [\<lparr>svc_Name = ''S'', svc_Methods = [mkMethod ''M'' (Options_http HttpRule_unset)]\<rparr>]]
     ''root''
   = extractServices
     [mkFile ''a.proto'' ''root''
        [\<lparr>svc_Name = ''S'', svc_Methods = [mkMethod ''M'' Options_without_http]\<rparr>]]
     ''root'' \<and>
   map (\<lambda>s. map Method_HTTP (Service_Methods s))
     (extractServices
        [mkFile ''a.proto'' ''root''
           [\<lparr>svc_Name = ''S'', svc_Methods = [mkMethod ''M'' (Options_http HttpRule_unset)]\<rparr>]]
        ''root'')
   = [[None]]"
  by code_simp

text \<open>
  Claim C3, amended: for every method whose HTTP annotation sets none of the five verbs
  (the pattern is not set, or is a custom pattern), \<^verbatim>\<open>extractHTTPInfo\<close> fails for that
  method with the error \<^verbatim>\<open>unsupported HTTP method pattern\<close>, which is not the error of
  a method without options or without the annotation; the collector does not report
  it: it keeps the method with an absent binding, exactly as it keeps the same method
  without an annotation.
\<close>

theorem extractHTTPInfo_unsupported_pattern:
  "extractHTTPInfo (method\<lparr>method_Options := Options_http HttpRule_unset\<rparr>)
     = Inl (Error ''unsupported HTTP method pattern'') \<and>
   extractHTTPInfo (method\<lparr>method_Options := Options_http (HttpRule_Custom kind path)\<rparr>)
     = Inl (Error ''unsupported HTTP method pattern'') \<and>
   extractHTTPInfo (method\<lparr>method_Options := Options_nil\<rparr>) = Inl (Error ''no options'') \<and>
   extractHTTPInfo (method\<lparr>method_Options := Options_without_http\<rparr>)
     = Inl (Error ''no http annotation'') \<and>
   Error ''unsupported HTTP method pattern'' \<noteq> Error ''no options'' \<and>
   Error ''unsupported HTTP method pattern'' \<noteq> Error ''no http annotation'' \<and>
   Method_HTTP (extractMethod (method\<lparr>method_Options := Options_http HttpRule_unset\<rparr>))
     = None \<and>
   Method_HTTP
     (extractMethod (method\<lparr>method_Options := Options_http (HttpRule_Custom kind path)\<rparr>))
     = None \<and>
   extractMethod (method\<lparr>method_Options := Options_http HttpRule_unset\<rparr>)
     = extractMethod (method\<lparr>method_Options := Options_without_http\<rparr>) \<and>
   extractMethod (method\<lparr>method_Options := Options_http (HttpRule_Custom kind path)\<rparr>)
     = extractMethod (method\<lparr>method_Options := Options_without_http\<rparr>)"
  by (simp add: extractHTTPInfo_def extractMethod_def)

text \<open>
  Claim C10: the collected services are, up to their order, the declared services of
  the files that pass the filter, and each has, up to order, one collected method for
  every declared method; a collected method keeps the declared name and has a binding
  exactly when \<^verbatim>\<open>extractHTTPInfo\<close> succeeded, so a method without annotation and a
  method whose extraction failed are both kept, with an absent binding. The methods
  without a binding are left out later, by the loop that builds the method list of a
  generated file.
\<close>

theorem collector_keeps_every_method:
  "mset (map (\<lambda>s. (Service_Name s, Service_Package s, mset (Service_Methods s)))
          (extractServices files rootPackage)) =
   mset (concat (map (\<lambda>f. map (\<lambda>svc. (svc_Name svc, file_Package f,
                                        mset (map extractMethod (svc_Methods svc))))
                              (file_Services f))
                     (filter (\<lambda>f. strings_HasPrefix (file_Package f) rootPackage) files))) \<and>
   Method_Name (extractMethod method) = method_Name method \<and>
   Method_HTTP (extractMethod method) =
     (case extractHTTPInfo method of Inl err \<Rightarrow> None | Inr httpInfo \<Rightarrow> Some httpInfo) \<and>
   Method_HTTP (extractMethod (method\<lparr>method_Options := Options_nil\<rparr>)) = None \<and>
   Method_HTTP (extractMethod (method\<lparr>method_Options := Options_without_http\<rparr>)) = None \<and>
   Method_HTTP (extractMethod (method\<lparr>method_Options := Options_http HttpRule_unset\<rparr>))
     = None \<and>
   map MethodTemplateData_Name (snd (processMethods methods hasFmt [])) =
     map Method_Name (filter (\<lambda>m. Method_HTTP m \<noteq> None) methods) \<and>
   map MethodTemplateData_Name (ServiceTemplateData_Methods (generateService_data svc cfg)) =
     map Method_Name (filter (\<lambda>m. Method_HTTP m \<noteq> None) (Service_Methods svc))"
proof -
  have "mset (map (\<lambda>s. (Service_Name s, Service_Package s, mset (Service_Methods s)))
          (extractServices files rootPackage)) =
        image_mset (\<lambda>s. (Service_Name s, Service_Package s, mset (Service_Methods s)))
          (mset (extractServices_files files rootPackage []))"
    by (simp add: extractServices_def mset_sort_Slice)
  also have "\<dots> =
     mset (concat (map (\<lambda>f. map (\<lambda>svc. (svc_Name svc, file_Package f,
                                        mset (map extractMethod (svc_Methods svc))))
                              (file_Services f))
                     (filter (\<lambda>f. strings_HasPrefix (file_Package f) rootPackage) files)))"
    by (simp add: extractServices_files_eq map_concat comp_def extractService_def
        mset_sort_Slice extractMethods_eq flip: mset_map)
  finally have collected: "mset (map (\<lambda>s. (Service_Name s, Service_Package s,
          mset (Service_Methods s))) (extractServices files rootPackage)) =
     mset (concat (map (\<lambda>f. map (\<lambda>svc. (svc_Name svc, file_Package f,
                                        mset (map extractMethod (svc_Methods svc))))
                              (file_Services f))
                     (filter (\<lambda>f. strings_HasPrefix (file_Package f) rootPackage) files)))" .
  have name: "Method_Name (extractMethod method) = method_Name method"
    by (simp add: extractMethod_def Let_def split: sum.splits)
  have http: "Method_HTTP (extractMethod method) =
     (case extractHTTPInfo method of Inl err \<Rightarrow> None | Inr httpInfo \<Rightarrow> Some httpInfo)"
    by (simp add: extractMethod_def Let_def split: sum.splits)
  have absent:
    "Method_HTTP (extractMethod (method\<lparr>method_Options := Options_nil\<rparr>)) = None"
    "Method_HTTP (extractMethod (method\<lparr>method_Options := Options_without_http\<rparr>)) = None"
    "Method_HTTP (extractMethod (method\<lparr>method_Options := Options_http HttpRule_unset\<rparr>))
       = None"
    by (simp_all add: extractHTTPInfo_def extractMethod_def)
  have skip: "map MethodTemplateData_Name (snd (processMethods methods hasFmt [])) =
     map Method_Name (filter (\<lambda>m. Method_HTTP m \<noteq> None) methods)"
    by (simp add: processMethods_eq comp_def)
  have skip_service:
    "map MethodTemplateData_Name (ServiceTemplateData_Methods (generateService_data svc cfg)) =
     map Method_Name (filter (\<lambda>m. Method_HTTP m \<noteq> None) (Service_Methods svc))"
    by (simp add: generateService_data_snd processMethods_eq comp_def)
  from collected name http absent skip skip_service show ?thesis
    by blast
qed

section \<open>Invocation configuration: results\<close>

lemma SplitN2_no_sep: "sep \<notin> set s \<Longrightarrow> strings_SplitN2 s sep = [s]"
  by (simp add: strings_SplitN2_def)

lemma SplitN2_sep:
  "sep \<notin> set r \<Longrightarrow> strings_SplitN2 (r @ sep # t) sep = [r, t]"
proof -
  assume "sep \<notin> set r"
  then have "takeWhile (\<lambda>c. c \<noteq> sep) (r @ sep # t) = r"
    and "dropWhile (\<lambda>c. c \<noteq> sep) (r @ sep # t) = sep # t"
    by (induction r) auto
  then show ?thesis
    by (simp add: strings_SplitN2_def)
qed

lemma parseClientConfig_no_sep:
  assumes "CHR '':'' \<notin> set (Parameters_Str params ''client'')"
  shows "\<exists>msg. parseClientConfig params = Inl (Error msg)"
  using assms by (simp add: parseClientConfig_def Let_def SplitN2_no_sep)

lemma parseClientConfig_sep:
  assumes "Parameters_Str params ''client'' = root @ '':'' @ sub"
    and "CHR '':'' \<notin> set root"
    and "strings_Split (strings_TrimSpace root) CHR ''.''
           ! (length (strings_Split (strings_TrimSpace root) CHR ''.'') - 1) \<noteq> []"
  shows "\<exists>cfg. parseClientConfig params = Inr cfg \<and>
           RootPackage cfg = strings_TrimSpace root \<and>
           OutputSubdir cfg = strings_TrimSpace sub"
  using assms
  by (simp add: parseClientConfig_def Let_def SplitN2_sep split: list.splits)

lemma ex_params: "Parameters_Str [''client'' \<mapsto> v] ''client'' = v"
  by (simp add: Parameters_Str_def)

text \<open>
  Claim C4 is right and the code is not. \<^verbatim>\<open>parseClientConfig\<close> checks that the string is
  not empty and that it has a \<^verbatim>\<open>:\<close>, and misses the check that neither side is empty:
  with an empty root package (\<^verbatim>\<open>client=:client\<close>) the expression \<^verbatim>\<open>lastPart[:1]\<close>
  panics, so the function crashes instead of returning a configuration error; with an
  empty output subdirectory (\<^verbatim>\<open>client=vendors.iniciador:\<close>) it returns a configuration,
  whose import path of the runtime package has an empty element, and \<^verbatim>\<open>Execute\<close> goes
  on to collect and generate.
\<close>

theorem parseClientConfig_empty_side_failing_input:
  "parseClientConfig [''client'' \<mapsto> ''vendors.iniciador:'']
     = Inr \<lparr>RootPackage = ''vendors.iniciador'', OutputSubdir = [],
            ClientName = ''IniciadorClient'',
            GoModulePath = ''github.com/getfrontierhq/schema/pkg/go'',
            HTTPClientPkg = ''github.com/getfrontierhq/schema/pkg/go//http''\<rparr> \<and>
   parseClientConfig [''client'' \<mapsto> '':client''] = Inl Panic \<and>
   Execute example_Lib example_MapOrder [''client'' \<mapsto> '':client''] [] = Inl Panic \<and>
   \<not> isl (Execute example_Lib example_MapOrder
            [''client'' \<mapsto> ''vendors.iniciador:''] [example_fileA]) \<and>
   length (projr (Execute example_Lib example_MapOrder
                    [''client'' \<mapsto> ''vendors.iniciador:''] [example_fileA])) = 2"
  by code_simp

text \<open>
  The part of the configuration check that the code does make: a string without a
  \<^verbatim>\<open>:\<close> separator, the empty string included, gives a configuration error, and
  \<^verbatim>\<open>Execute\<close> ends with that error before anything is collected or generated; a string
  with a separator whose root side, trimmed, ends in a non-empty segment is accepted
  whatever its other side is.
\<close>

theorem parseClientConfig_separator:
  "(CHR '':'' \<notin> set (Parameters_Str params ''client'') \<longrightarrow>
      (\<exists>msg. parseClientConfig params = Inl (Error msg)) \<and>
      (\<exists>msg. Execute lib mo params targets = Inl (Error msg))) \<and>
   (Parameters_Str params ''client'' = root @ '':'' @ sub \<and>
    CHR '':'' \<notin> set root \<and>
    strings_Split (strings_TrimSpace root) CHR ''.''
      ! (length (strings_Split (strings_TrimSpace root) CHR ''.'') - 1) \<noteq> [] \<longrightarrow>
      (\<exists>cfg. parseClientConfig params = Inr cfg \<and>
             RootPackage cfg = strings_TrimSpace root \<and>
             OutputSubdir cfg = strings_TrimSpace sub))"
proof (intro conjI impI)
  assume a: "CHR '':'' \<notin> set (Parameters_Str params ''client'')"
  then obtain msg where m: "parseClientConfig params = Inl (Error msg)"
    using parseClientConfig_no_sep by blast
  then show "\<exists>msg. parseClientConfig params = Inl (Error msg)"
    by blast
  from m show "\<exists>msg. Execute lib mo params targets = Inl (Error msg)"
    by (simp add: Execute_def)
next
  assume "Parameters_Str params ''client'' = root @ '':'' @ sub \<and>
    CHR '':'' \<notin> set root \<and>
    strings_Split (strings_TrimSpace root) CHR ''.''
      ! (length (strings_Split (strings_TrimSpace root) CHR ''.'') - 1) \<noteq> []"
  then show "\<exists>cfg. parseClientConfig params = Inr cfg \<and>
             RootPackage cfg = strings_TrimSpace root \<and>
             OutputSubdir cfg = strings_TrimSpace sub"
    using parseClientConfig_sep by blast
qed

theorem parseClientConfig_separator_witness:
  "CHR '':'' \<notin> set (Parameters_Str [''client'' \<mapsto> ''vendors.iniciador''] ''client'') \<and>
   (\<exists>msg. parseClientConfig [''client'' \<mapsto> ''vendors.iniciador''] = Inl (Error msg)) \<and>
   (\<exists>msg. Execute example_Lib example_MapOrder [''client'' \<mapsto> ''vendors.iniciador''] [] = Inl (Error msg)) \<and>
   Parameters_Str [''client'' \<mapsto> ''vendors.iniciador:''] ''client'' = ''vendors.iniciador'' @ '':'' @ [] \<and>
   CHR '':'' \<notin> set ''vendors.iniciador'' \<and>
   strings_Split (strings_TrimSpace ''vendors.iniciador'') CHR ''.''
      ! (length (strings_Split (strings_TrimSpace ''vendors.iniciador'') CHR ''.'') - 1) \<noteq> [] \<and>
   (\<exists>cfg. parseClientConfig [''client'' \<mapsto> ''vendors.iniciador:''] = Inr cfg \<and>
          RootPackage cfg = strings_TrimSpace ''vendors.iniciador'' \<and>
          OutputSubdir cfg = strings_TrimSpace [])"
proof -
  have h1: "CHR '':'' \<notin> set (Parameters_Str [''client'' \<mapsto> ''vendors.iniciador''] ''client'')"
    by (simp add: ex_params)
  have h2: "Parameters_Str [''client'' \<mapsto> ''vendors.iniciador:''] ''client'' = ''vendors.iniciador'' @ '':'' @ []"
    by (simp add: ex_params)
  have h3: "CHR '':'' \<notin> set ''vendors.iniciador''"
    by simp
  have h4: "strings_Split (strings_TrimSpace ''vendors.iniciador'') CHR ''.''
      ! (length (strings_Split (strings_TrimSpace ''vendors.iniciador'') CHR ''.'') - 1) \<noteq> []"
    by code_simp
  from parseClientConfig_separator
      [where params = "[''client'' \<mapsto> ''vendors.iniciador'']" and lib = example_Lib and mo = example_MapOrder
         and targets = "[]"]
    h1
  have c1: "(\<exists>msg. parseClientConfig [''client'' \<mapsto> ''vendors.iniciador''] = Inl (Error msg)) \<and>
   (\<exists>msg. Execute example_Lib example_MapOrder [''client'' \<mapsto> ''vendors.iniciador''] [] = Inl (Error msg))"
    by blast
  from parseClientConfig_separator
      [where params = "[''client'' \<mapsto> ''vendors.iniciador:'']"
         and root = "''vendors.iniciador''" and sub = "[]"]
    h2 h3 h4
  have c2: "\<exists>cfg. parseClientConfig [''client'' \<mapsto> ''vendors.iniciador:''] = Inr cfg \<and>
          RootPackage cfg = strings_TrimSpace ''vendors.iniciador'' \<and>
          OutputSubdir cfg = strings_TrimSpace []"
    by blast
  from h1 h2 h3 h4 c1 c2 show ?thesis
    by blast
qed

section \<open>Path compiler: results\<close>

lemma notClose_simps [simp]: "\<not> notClose CHR ''}''" "notClose CHR ''{''"
  by (simp_all add: notClose_def)



















section \<open>Emission: results\<close>

text \<open>
  Claim C1 is right and the code is not: both templates choose the call with
  \<^verbatim>\<open>{{if eq .HTTP.Method "POST"}} ... {{else}} ... {{end}}\<close>, so every verb other than
  POST falls into the branch of \<^verbatim>\<open>s.client.Get\<close>. A method bound to PUT, DELETE or
  PATCH is rendered with the comment that it makes a PUT (DELETE, PATCH) request and
  with a call of \<^verbatim>\<open>Get\<close>; \<^verbatim>\<open>generateService\<close> and \<^verbatim>\<open>generateNestedServices\<close> return
  the file and no error.
\<close>

theorem emission_downgrades_to_Get:
  "extractHTTPInfo (mkMethod ''Update'' (Options_http (HttpRule_Put ''/v1/items'')))
     = Inr \<lparr>HTTPInfo_Method = ''PUT'', HTTPInfo_Path = ''/v1/items'',
            HTTPInfo_PathParams = []\<rparr> \<and>
   render_impl_method ''ItemsServiceImpl'' (example_methodData ''PUT'')
     = Inr (example_impl_text ''PUT'' ''err := s.client.Get(ctx, path, resp)'') \<and>
   render_impl_method ''ItemsServiceImpl'' (example_methodData ''DELETE'')
     = Inr (example_impl_text ''DELETE'' ''err := s.client.Get(ctx, path, resp)'') \<and>
   render_impl_method ''ItemsServiceImpl'' (example_methodData ''PATCH'')
     = Inr (example_impl_text ''PATCH'' ''err := s.client.Get(ctx, path, resp)'') \<and>
   ServiceTemplateData_Methods
     (generateService_data (example_itemsService (HttpRule_Put ''/v1/items'')) example_cfg)
     = [example_methodData ''PUT''] \<and>
   \<not> isl (generateService (example_itemsService (HttpRule_Put ''/v1/items'')) example_cfg) \<and>
   strings_HasSuffix
     (projr (generateService (example_itemsService (HttpRule_Put ''/v1/items'')) example_cfg))
     (example_impl_text ''PUT'' ''err := s.client.Get(ctx, path, resp)'') \<and>
   strings_HasSuffix
     (projr (generateService (example_itemsService (HttpRule_Delete ''/v1/items''))
               example_cfg))
     (example_impl_text ''DELETE'' ''err := s.client.Get(ctx, path, resp)'') \<and>
   strings_HasSuffix
     (projr (generateService (example_itemsService (HttpRule_Patch ''/v1/items'')) example_cfg))
     (example_impl_text ''PATCH'' ''err := s.client.Get(ctx, path, resp)'') \<and>
   \<not> isl (generateNestedServices ''items''
            [example_itemsService (HttpRule_Put ''/v1/items'')] example_cfg) \<and>
   strings_HasSuffix
     (projr (generateNestedServices ''items''
               [example_itemsService (HttpRule_Put ''/v1/items'')] example_cfg))
     (example_impl_text ''PUT'' ''err := s.client.Get(ctx, path, resp)'' @ NL)"
  by code_simp

section \<open>The pipeline: results\<close>

lemma sort_insert_insort_key:
  "sort_insert (\<lambda>a b. f a < f b) x ys = insort_key f x ys"
  for f :: "'a \<Rightarrow> 'k::linorder"
  by (induction ys) (auto simp: not_le)

lemma sort_Slice_sort_key:
  "sort_Slice (\<lambda>a b. f a < f b) xs = sort_key f xs"
  for f :: "'a \<Rightarrow> 'k::linorder"
  by (induction xs) (simp_all add: sort_Slice_def sort_insert_insort_key sort_key_def)

lemma sort_key_distinct_unique:
  fixes f :: "'a \<Rightarrow> 'k::linorder"
  assumes m: "mset xs = mset ys" and d: "distinct (map f xs)"
  shows "sort_key f xs = sort_key f ys"
proof -
  have s: "set xs = set ys"
    using m by (rule mset_eq_setD)
  have "mset (map f xs) = mset (map f ys)"
    using m by simp
  with d have d': "distinct (map f ys)"
    by (metis mset_eq_imp_distinct_iff)
  have "map f (sort_key f xs) = map f (sort_key f ys)"
  proof (rule sorted_distinct_set_unique)
    show "sorted (map f (sort_key f xs))" "sorted (map f (sort_key f ys))"
      by simp_all
    show "distinct (map f (sort_key f xs))"
      using d by (metis distinct_map distinct_sort set_sort)
    show "distinct (map f (sort_key f ys))"
      using d' by (metis distinct_map distinct_sort set_sort)
    show "set (map f (sort_key f xs)) = set (map f (sort_key f ys))"
      using s by simp
  qed
  moreover have "inj_on f (set (sort_key f xs) \<union> set (sort_key f ys))"
    using d s by (simp add: distinct_map)
  ultimately show ?thesis
    by (simp add: inj_on_map_eq_map)
qed

lemma sort_Strings_perm:
  assumes "mset ks' = mset ks"
  shows "sort_Strings ks' = sort_Strings ks"
proof -
  have "sort_Strings ks' = sort_key (\<lambda>x. x) ks'" and "sort_Strings ks = sort_key (\<lambda>x. x) ks"
    by (simp_all add: sort_Strings_def sort_Slice_sort_key)
  moreover have "sort_key (\<lambda>x. x) ks' = sort_key (\<lambda>x. x) ks"
    using assms by (intro properties_for_sort) simp_all
  ultimately show ?thesis
    by simp
qed

lemma generateRootClient_order:
  assumes "is_map_order mo1" and "is_map_order mo2"
  shows "generateRootClient mo1 clientName topLevel nested cfg =
         generateRootClient mo2 clientName topLevel nested cfg"
proof -
  have "sort_Strings (range_generateRootClient mo1 (gomap_keys nested))
          = sort_Strings (gomap_keys nested)"
    using assms(1) by (intro sort_Strings_perm) (simp add: is_map_order_def)
  moreover have "sort_Strings (range_generateRootClient mo2 (gomap_keys nested))
          = sort_Strings (gomap_keys nested)"
    using assms(2) by (intro sort_Strings_perm) (simp add: is_map_order_def)
  ultimately show ?thesis
    by (simp add: generateRootClient_def)
qed

lemma Execute_order:
  assumes "is_map_order mo1" and "is_map_order mo2"
  shows "Execute lib mo1 params targets = Execute lib mo2 params targets"
proof -
  have c1: "sort_Strings (range_Execute mo1 ks) = sort_Strings ks" for ks
    using assms(1) by (intro sort_Strings_perm) (simp add: is_map_order_def)
  have c2: "sort_Strings (range_Execute mo2 ks) = sort_Strings ks" for ks
    using assms(2) by (intro sort_Strings_perm) (simp add: is_map_order_def)
  show ?thesis
    unfolding Execute_def c1 c2 generateRootClient_order [OF assms] ..
qed

lemma Execute_targets:
  assumes "mset targets1 = mset targets2" and "distinct (map file_Name targets1)"
  shows "Execute lib mo params targets1 = Execute lib mo params targets2"
proof -
  have files: "sort_Slice (\<lambda>a b. file_Name a < file_Name b) targets1
      = sort_Slice (\<lambda>a b. file_Name a < file_Name b) targets2"
    using assms by (simp add: sort_Slice_sort_key sort_key_distinct_unique)
  show ?thesis
    unfolding Execute_def files ..
qed

text \<open>
  Claim C6: two runs on the same input give the same artifacts, with the same names, in
  the same order, with the same content. A run is fixed by the input (the parameters
  and the files) and by what the language leaves open: the order in which
  \<^verbatim>\<open>range\<close> visits the map of the target files and the order in which each of the two
  \<^verbatim>\<open>range\<close> statements visits the categories. The map of the target files has one
  entry for each file name, so the two runs see lists of files that are rearrangements
  of each other with distinct names. \<^verbatim>\<open>sort.Slice\<close> is a function of the slice it is
  given; the proof uses of it only that the result is sorted and a rearrangement, which
  fixes the result when the keys are distinct.
\<close>

theorem Execute_deterministic:
  assumes "mset targets1 = mset targets2" and "distinct (map file_Name targets1)"
    and "is_map_order mo1" and "is_map_order mo2"
  shows "Execute lib mo1 params targets1 = Execute lib mo2 params targets2"
proof -
  have "Execute lib mo1 params targets1 = Execute lib mo1 params targets2"
    using assms(1,2) by (rule Execute_targets)
  also have "\<dots> = Execute lib mo2 params targets2"
    using assms(3,4) by (rule Execute_order)
  finally show ?thesis .
qed

theorem Execute_deterministic_witness:
  "mset [example_fileB, example_fileC, example_fileA]
     = mset [example_fileA, example_fileB, example_fileC] \<and>
   distinct (map file_Name [example_fileB, example_fileC, example_fileA]) \<and>
   is_map_order example_MapOrder \<and> is_map_order example_MapOrder' \<and>
   Execute example_Lib example_MapOrder [''client'' \<mapsto> ''root:out'']
       [example_fileB, example_fileC, example_fileA]
     = Execute example_Lib example_MapOrder' [''client'' \<mapsto> ''root:out'']
         [example_fileA, example_fileB, example_fileC] \<and>
   map fst (projr (Execute example_Lib example_MapOrder [''client'' \<mapsto> ''root:out'']
                     [example_fileB, example_fileC, example_fileA]))
     = [''out/http/client.gen.go'', ''out/accounts.gen.go'', ''out/banking.gen.go'',
        ''out/investments.gen.go'', ''out/client.gen.go'']"
proof -
  have h1: "mset [example_fileB, example_fileC, example_fileA]
     = mset [example_fileA, example_fileB, example_fileC]"
    by (simp add: add_mset_commute)
  have h2: "distinct (map file_Name [example_fileB, example_fileC, example_fileA])"
    by (simp add: example_fileA_def example_fileB_def example_fileC_def mkFile_def)
  have h3: "is_map_order example_MapOrder"
    by (simp add: is_map_order_def example_MapOrder_def)
  have h4: "is_map_order example_MapOrder'"
    by (simp add: is_map_order_def example_MapOrder'_def)
  have names:
    "map fst (projr (Execute example_Lib example_MapOrder [''client'' \<mapsto> ''root:out'']
                       [example_fileB, example_fileC, example_fileA]))
     = [''out/http/client.gen.go'', ''out/accounts.gen.go'', ''out/banking.gen.go'',
        ''out/investments.gen.go'', ''out/client.gen.go'']"
    by code_simp
  from Execute_deterministic [OF h1 h2 h3 h4] h1 h2 h3 h4 names show ?thesis
    by blast
qed

end
